theory Spec2Isabelle
  imports Main "HOL-Library.Word"
begin

unbundle bit_operations_syntax

section \<open>The varlink command line tool: the call and help commands\<close>

text \<open>
  A shallow embedding of \<^verbatim>\<open>src/tool/command-call.c\<close> and
  \<^verbatim>\<open>src/tool/command-help.c\<close>. Both files drive a library (connection, JSON
  objects, interface parser, option parser) whose code is not part of them. Every library
  function is a field of a record of externals, so each theorem holds for every behaviour
  of the library. What the commands print and which library calls with an outside effect
  they make is kept in a trace.
\<close>

subsection \<open>Constants of the missing headers\<close>

text \<open>
  The \<^verbatim>\<open>CLI_ERROR_*\<close> enumerators come from a header that is not among the sources.
  They are kept symbolic: a datatype of the names, and a function from names to numbers
  that is a field of the externals. The same holds for the two flag bits
  \<^verbatim>\<open>VARLINK_CALL_MORE\<close> and \<^verbatim>\<open>VARLINK_REPLY_CONTINUES\<close>.
\<close>

datatype cli_error =
    CLI_ERROR_PANIC
  | CLI_ERROR_CANNOT_RESOLVE
  | CLI_ERROR_MISSING_ARGUMENT
  | CLI_ERROR_INVALID_ARGUMENT
  | CLI_ERROR_INVALID_JSON
  | CLI_ERROR_CANNOT_CONNECT
  | CLI_ERROR_CALL_FAILED
  | CLI_ERROR_REMOTE_ERROR
  | CLI_ERROR_CANCELED
  | CLI_ERROR_CONNECTION_CLOSED

definition EXIT_SUCCESS :: int where
  "EXIT_SUCCESS = 0"

definition EXIT_FAILURE :: int where
  "EXIT_FAILURE = 1"

subsection \<open>Data of the call command\<close>

text \<open>Of \<^verbatim>\<open>VarlinkURI\<close> the commands read one field only.\<close>

record VarlinkURI =
  qualified_member :: "string option"

text \<open>
  \<^verbatim>\<open>CallArguments\<close>; a \<^verbatim>\<open>NULL\<close> pointer is \<open>None\<close>.
\<close>

record CallArguments =
  "help" :: bool
  flags :: "64 word"
  uri :: "VarlinkURI option"
  parameters :: "string option"

text \<open>What a run does to the outside, in order.\<close>

datatype 'o action =
    Stdout string
  | Stderr string
  | Connect VarlinkURI
  | Call string "'o option" "64 word"

text \<open>
  The externals of the call command. A C function that returns a status \<open>r\<close> and fills
  an out parameter is a function to a pair; the model tests \<open>r < 0\<close> as the source does.
  \<open>getopt_long argv optstring options\<close> gives the values that the successive calls of
  the option parser return before it returns a negative value, the final \<^verbatim>\<open>optind\<close>,
  and \<^verbatim>\<open>argv\<close> as the parser has reordered it. What the library prints by itself is
  not part of the trace. \<open>realloc n\<close> says whether the allocator grants the buffer a
  block of \<open>n\<close> bytes; when it does not, \<^verbatim>\<open>realloc\<close> returns the null pointer.
\<close>

record 'o extern =
  CLI_ERROR :: "cli_error \<Rightarrow> int"
  VARLINK_CALL_MORE :: "64 word"
  VARLINK_REPLY_CONTINUES :: "64 word"
  program_invocation_short_name :: string
  getopt_long :: "string list \<Rightarrow> string \<Rightarrow> (string \<times> int) list \<Rightarrow> int list \<times> nat \<times> string list"
  realloc :: "nat \<Rightarrow> bool"
  varlink_uri_new :: "string \<Rightarrow> int \<times> VarlinkURI"
  varlink_object_new_from_json :: "string \<Rightarrow> int \<times> 'o"
  varlink_object_to_pretty_json :: "'o \<Rightarrow> int \<times> string"
  varlink_error_string :: "int \<Rightarrow> string"
  cli_error_string :: "int \<Rightarrow> string"
  cli_connect :: "VarlinkURI \<Rightarrow> int"
  varlink_connection_call :: "string \<Rightarrow> 'o option \<Rightarrow> 64 word \<Rightarrow> int"

text \<open>
  The state a call shares with its reply callback: the variable \<^verbatim>\<open>error\<close> of
  \<^verbatim>\<open>call_run\<close> that the callback reaches through \<^verbatim>\<open>userdata\<close>, whether the
  connection has been closed, and the trace.
\<close>

record 'o call_state =
  error :: int
  closed :: bool
  trace :: "'o action list"

definition emit :: "'o action \<Rightarrow> 'o call_state \<Rightarrow> 'o call_state" where
  "emit a s = s\<lparr>trace := trace s @ [a]\<rparr>"

definition varlink_connection_close :: "'o call_state \<Rightarrow> 'o call_state" where
  "varlink_connection_close s = s\<lparr>closed := True\<rparr>"

subsection \<open>Option characters\<close>

definition opt_h :: int where
  "opt_h = of_char (CHR ''h'')"

definition opt_m :: int where
  "opt_m = of_char (CHR ''m'')"

definition opt_unknown :: int where
  "opt_unknown = of_char (CHR ''?'')"

definition opt_colon :: int where
  "opt_colon = of_char (CHR '':'')"

definition options :: "(string \<times> int) list" where
  "options = [(''help'', opt_h), (''more'', opt_m)]"

subsection \<open>\<^verbatim>\<open>call_arguments_new\<close>\<close>

text \<open>
  The \<^verbatim>\<open>while\<close> loop over the option parser. \<open>Inl r\<close> is a \<^verbatim>\<open>return r\<close> from
  inside the loop that leaves \<^verbatim>\<open>*argumentsp\<close> untouched, \<open>Inr (True, a)\<close> the
  return of 0 of case \<^verbatim>\<open>'h'\<close> that stores \<open>a\<close>, and \<open>Inr (False, a)\<close> the
  end of the loop.
\<close>

fun call_arguments_options ::
  "'o extern \<Rightarrow> int list \<Rightarrow> CallArguments \<Rightarrow> int + bool \<times> CallArguments" where
  "call_arguments_options x [] arguments = Inr (False, arguments)"
| "call_arguments_options x (c # cs) arguments =
     (if c < 0 then Inr (False, arguments)
      else if c = opt_h then Inr (True, arguments\<lparr>help := True\<rparr>)
      else if c = opt_m then
        call_arguments_options x cs (arguments\<lparr>flags := flags arguments OR VARLINK_CALL_MORE x\<rparr>)
      else if c = opt_unknown then Inl (- CLI_ERROR x CLI_ERROR_INVALID_ARGUMENT)
      else if c = opt_colon then Inl (- CLI_ERROR x CLI_ERROR_MISSING_ARGUMENT)
      else Inl (- CLI_ERROR x CLI_ERROR_PANIC))"

text \<open>
  \<open>Inr a\<close> is the return of 0 with \<^verbatim>\<open>*argumentsp = a\<close>; \<open>Inl r\<close> is the return
  of \<open>r\<close> with \<^verbatim>\<open>*argumentsp\<close> left \<^verbatim>\<open>NULL\<close>. The option parser reorders
  \<^verbatim>\<open>argv\<close> in place, so \<^verbatim>\<open>argc\<close> is the length of the reordered vector, and
  \<^verbatim>\<open>argv[argc]\<close> is the null pointer that ends every argument vector.
\<close>

definition call_arguments_new :: "'o extern \<Rightarrow> string list \<Rightarrow> int + CallArguments" where
  "call_arguments_new x argv =
     (let (codes, optind, argv) = getopt_long x argv '':hm'' options;
          argc = length argv
      in case call_arguments_options x codes
                \<lparr>help = False, flags = 0, uri = None, parameters = None\<rparr> of
           Inl r \<Rightarrow> Inl r
         | Inr (True, arguments) \<Rightarrow> Inr arguments
         | Inr (False, arguments) \<Rightarrow>
             if optind \<ge> argc then Inl (- CLI_ERROR x CLI_ERROR_MISSING_ARGUMENT)
             else
               let (r, u) = varlink_uri_new x (argv ! optind)
               in if r < 0 then Inl (- CLI_ERROR x CLI_ERROR_INVALID_ARGUMENT)
                  else Inr (arguments\<lparr>uri := Some u,
                         parameters := (if optind + 1 < argc then Some (argv ! (optind + 1))
                                        else None)\<rparr>))"

subsection \<open>\<^verbatim>\<open>reply_callback\<close>\<close>

definition reply_callback ::
  "'o extern \<Rightarrow> string option \<Rightarrow> 'o \<Rightarrow> 64 word \<Rightarrow> 'o call_state \<Rightarrow> int \<times> 'o call_state" where
  "reply_callback x err params fl s =
     (let s = (case err of
                 Some e \<Rightarrow> emit (Stderr (''Call failed with error: '' @ e @ ''\<newline>'')) s
               | None \<Rightarrow> s);
          (r, json) = varlink_object_to_pretty_json x params
      in if r < 0 then
           (0, varlink_connection_close
                 ((emit (Stderr (''Unable to read message: '' @ varlink_error_string x (- r)
                                  @ ''\<newline>'')) s)
                  \<lparr>error := CLI_ERROR x CLI_ERROR_INVALID_JSON\<rparr>))
         else
           let s = emit (Stdout (json @ ''\<newline>'')) s
           in if err \<noteq> None then
                (0, varlink_connection_close (s\<lparr>error := CLI_ERROR x CLI_ERROR_REMOTE_ERROR\<rparr>))
              else if fl AND VARLINK_REPLY_CONTINUES x = 0 then
                (0, varlink_connection_close s)
              else (0, s))"

subsection \<open>Reading the parameters from standard input\<close>

text \<open>
  Standard input is the list of what the kernel hands over at the successive calls of
  \<^verbatim>\<open>read\<close>: a chunk of bytes, of which a call takes as many as it asked for at most
  and leaves the rest for the next call, or an error. The empty list is the end of the
  stream; an empty chunk is a read of no bytes before it.
\<close>

datatype input = Data string | ReadError

fun read_STDIN :: "input list \<Rightarrow> nat \<Rightarrow> int \<times> string \<times> input list" where
  "read_STDIN [] n = (0, [], [])"
| "read_STDIN (ReadError # rest) n = (- 1, [], rest)"
| "read_STDIN (Data c # rest) n =
     (if n = 0 then (0, [], Data c # rest)
      else if c = [] then (0, [], rest)
      else let k = min n (length c)
           in (int k, take k c, if k < length c then Data (drop k c) # rest else rest))"

text \<open>
  The bytes that the successive reads deliver before the first read that returns no bytes
  or an error: this is what has reached the program when the loop of \<^verbatim>\<open>call_run\<close>
  stops.
\<close>

fun delivered :: "input list \<Rightarrow> string" where
  "delivered [] = []"
| "delivered (ReadError # rest) = []"
| "delivered (Data c # rest) = (if c = [] then [] else c @ delivered rest)"

fun input_size :: "input list \<Rightarrow> nat" where
  "input_size [] = 0"
| "input_size (ReadError # rest) = Suc (input_size rest)"
| "input_size (Data c # rest) = Suc (length c + input_size rest)"

text \<open>
  What a run of the command comes to: it returns a value, it waits for an event that never
  comes, or it leaves defined behaviour (a store outside the buffer or through a null
  pointer).
\<close>

datatype outcome = Return int | Blocks | Undefined

text \<open>
  The \<^verbatim>\<open>for (;;)\<close> loop of \<^verbatim>\<open>call_run\<close>. \<^verbatim>\<open>unsigned long\<close> has 64 bits, so the
  doubling wraps around at \<open>2 ^ 64\<close>. The buffer holds the \<open>sz\<close> bytes read so far
  (\<open>sz\<close> is the variable \<^verbatim>\<open>size\<close>). The source stores the result of \<^verbatim>\<open>realloc\<close>
  without testing it: when the allocator does not grant the new capacity
  (\<open>granted\<close> is false of it), \<^verbatim>\<open>buffer\<close> is the null pointer from then on, and the
  read of line 177, or at the latest the store of line 185, goes through it outside any
  allocation: \<open>None\<close>. A read at \<^verbatim>\<open>buffer + size\<close> with \<open>sz\<close> beyond
  \<open>buffer_size\<close> is outside the buffer as well: \<open>None\<close>. Below that point
  \<open>buffer_size - sz\<close> and \<open>sz + r\<close> do not wrap.
\<close>

function read_loop ::
  "(nat \<Rightarrow> bool) \<Rightarrow> nat \<Rightarrow> nat \<Rightarrow> string \<Rightarrow> input list
     \<Rightarrow> (nat \<times> nat \<times> string \<times> input list) option" where
  "read_loop granted buffer_size sz buffer inp =
     (let grow = (sz = buffer_size);
          buffer_size = (if grow then max (buffer_size * 2 mod 2 ^ 64) 1024 else buffer_size)
      in if grow \<and> \<not> granted buffer_size then None
         else if buffer_size < sz then None
         else
           case read_STDIN inp (buffer_size - sz) of (r, bytes, inp') \<Rightarrow>
             if r \<le> 0 then Some (buffer_size, sz, buffer, inp')
             else read_loop granted buffer_size (sz + nat r) (buffer @ bytes) inp')"
  by pat_completeness auto
termination
proof -
  have decreases: "input_size inp' < input_size inp"
    if "(r, bytes, inp') = read_STDIN inp n" and "0 < r"
    for inp n r bytes inp'
    using that
    by (induction inp n rule: read_STDIN.induct) (auto simp: Let_def split: if_splits)
  show ?thesis
    by (relation "measure (\<lambda>(granted, buffer_size, sz, buffer, inp). input_size inp)")
       (auto dest: decreases)
qed

text \<open>A C string ends at its first null byte.\<close>

definition c_string :: "string \<Rightarrow> string" where
  "c_string bytes = takeWhile (\<lambda>c. c \<noteq> CHR 0x00) bytes"

text \<open>
  The loop from an empty buffer, then \<^verbatim>\<open>buffer[sz] = '\0'\<close>, which is inside the
  buffer when \<open>sz < buffer_size\<close>; the result is the buffer read as a C string.
\<close>

definition read_parameters :: "(nat \<Rightarrow> bool) \<Rightarrow> input list \<Rightarrow> string option" where
  "read_parameters granted inp =
     (case read_loop granted 0 0 [] inp of
        None \<Rightarrow> None
      | Some (buffer_size, sz, buffer, inp') \<Rightarrow>
          if sz < buffer_size then Some (c_string (buffer @ [CHR 0x00])) else None)"

subsection \<open>The event loop\<close>

text \<open>What the connection and the signal handler deliver while the command waits.\<close>

datatype 'o event =
    Reply "string option" 'o "64 word"
  | Interrupt
  | Hangup
  | Failure cli_error

text \<open>
  Modelled from the spec: \<^verbatim>\<open>cli_process_all_events\<close> is called by \<^verbatim>\<open>call_run\<close> and
  its code is not among the sources. The spec has the loop block until a reply arrives, a
  cancellation signal is received or the peer closes the connection. A reply goes to the
  reply callback. When the reply carries a success value, its continues indicator is set
  and the caller requested streaming, the loop remains waiting; otherwise the call is
  done, and the connection is closed. The caller's request is the flag
  \<^verbatim>\<open>VARLINK_CALL_MORE\<close> among the flags \<open>cfl\<close> that \<^verbatim>\<open>varlink_connection_call\<close> was
  given for this connection. The values returned are the ones \<^verbatim>\<open>call_run\<close> tells apart:
  non-negative when the call is done, \<^verbatim>\<open>-CLI_ERROR_CANCELED\<close> on the signal,
  \<^verbatim>\<open>-CLI_ERROR_CONNECTION_CLOSED\<close> when the peer closes, the negated code of any other
  failure. \<open>None\<close>: the events are used up and the loop waits for ever.
\<close>

fun cli_process_all_events ::
  "'o extern \<Rightarrow> 64 word \<Rightarrow> 'o event list \<Rightarrow> 'o call_state \<Rightarrow> int option \<times> 'o call_state" where
  "cli_process_all_events x cfl [] s = (None, s)"
| "cli_process_all_events x cfl (Interrupt # es) s =
     (Some (- CLI_ERROR x CLI_ERROR_CANCELED), s)"
| "cli_process_all_events x cfl (Hangup # es) s =
     (Some (- CLI_ERROR x CLI_ERROR_CONNECTION_CLOSED), s)"
| "cli_process_all_events x cfl (Failure e # es) s = (Some (- CLI_ERROR x e), s)"
| "cli_process_all_events x cfl (Reply err params fl # es) s =
     (case reply_callback x err params fl s of (r, s') \<Rightarrow>
        if r < 0 then (Some r, s')
        else if closed s' then (Some 0, s')
        else if err = None \<and> fl AND VARLINK_REPLY_CONTINUES x \<noteq> 0
                \<and> cfl AND VARLINK_CALL_MORE x \<noteq> 0 then
          cli_process_all_events x cfl es s'
        else (Some 0, varlink_connection_close s'))"

subsection \<open>\<^verbatim>\<open>call_run\<close>\<close>

text \<open>
  Lines 166 to 195: the parameter token, read from standard input when it is \<^verbatim>\<open>-\<close>,
  is decoded. \<open>Inl\<close> is a return from \<^verbatim>\<open>call_run\<close>, \<open>Inr\<close> the value of the
  variable \<^verbatim>\<open>parameters\<close> afterwards.
\<close>

definition call_run_parameters ::
  "'o extern \<Rightarrow> string option \<Rightarrow> input list \<Rightarrow> 'o call_state
     \<Rightarrow> outcome \<times> 'o call_state + 'o option \<times> 'o call_state" where
  "call_run_parameters x token inp s =
     (case token of
        None \<Rightarrow> Inr (None, s)
      | Some p \<Rightarrow>
          (case (if p = ''-'' then read_parameters (realloc x) inp else Some p) of
             None \<Rightarrow> Inl (Undefined, s)
           | Some text \<Rightarrow>
               let (r, obj) = varlink_object_new_from_json x text
               in if r < 0 then
                    Inl (Return (- CLI_ERROR x CLI_ERROR_INVALID_JSON),
                         emit (Stderr ''Unable to parse input parameters, must be valid JSON\<newline>'') s)
                  else Inr (Some obj, s)))"

text \<open>Lines 197 to 230: connect, call, process the events.\<close>

definition call_run_connection ::
  "'o extern \<Rightarrow> VarlinkURI \<Rightarrow> string \<Rightarrow> 'o option \<Rightarrow> 64 word \<Rightarrow> 'o event list
     \<Rightarrow> 'o call_state \<Rightarrow> outcome \<times> 'o call_state" where
  "call_run_connection x u member params fl events s =
     (let r = cli_connect x u;
          s = emit (Connect u) s
      in if r < 0 then
           (Return (- CLI_ERROR x CLI_ERROR_CANNOT_CONNECT),
            emit (Stderr (''Unable to connect: '' @ cli_error_string x (- r) @ ''\<newline>'')) s)
         else
           let r = varlink_connection_call x member params fl;
               s = emit (Call member params fl) s
           in if r < 0 then
                (Return (- CLI_ERROR x CLI_ERROR_CALL_FAILED),
                 emit (Stderr (''Unable to call: '' @ varlink_error_string x (- r) @ ''\<newline>'')) s)
              else
                case cli_process_all_events x fl events s of
                  (None, s) \<Rightarrow> (Blocks, s)
                | (Some r, s) \<Rightarrow>
                    if r \<ge> 0 then (Return 0, s)
                    else if r = - CLI_ERROR x CLI_ERROR_CANCELED then (Return 0, s)
                    else if r = - CLI_ERROR x CLI_ERROR_CONNECTION_CLOSED then
                      (Return r, emit (Stderr ''Connection closed.\<newline>'') s)
                    else
                      (Return r,
                       emit (Stderr (''Unable to process events: '' @ cli_error_string x (- r)
                                      @ ''\<newline>'')) s))"

definition usage :: "'o extern \<Rightarrow> 'o action list" where
  "usage x =
     [Stdout (''Usage: '' @ program_invocation_short_name x
                @ '' call [ADDRESS/]INTERFACE.METHOD [ARGUMENTS]\<newline>''),
      Stdout ''\<newline>'',
      Stdout ''Call METHOD on INTERFACE at ADDRESS. ARGUMENTS must be valid JSON.\<newline>'',
      Stdout ''\<newline>'',
      Stdout ''  -h, --help             display this help text and exit\<newline>'',
      Stdout ''  -m, --more             wait for multiple method returns if supported\<newline>'']"

text \<open>
  The whole function. The labels of a \<^verbatim>\<open>switch\<close> are distinct constants, so the codes
  that label the first one differ from 0 and from each other, and a failure \<open>Inl r\<close> of
  \<^verbatim>\<open>call_arguments_new\<close> never takes the case 0.
\<close>

definition call_run ::
  "'o extern \<Rightarrow> string list \<Rightarrow> input list \<Rightarrow> 'o event list \<Rightarrow> outcome \<times> 'o call_state" where
  "call_run x argv inp events =
     (let s = \<lparr>error = 0, closed = False, trace = []\<rparr>
      in case call_arguments_new x argv of
           Inl r \<Rightarrow>
             if r = - CLI_ERROR x CLI_ERROR_MISSING_ARGUMENT then
               (Return (- CLI_ERROR x CLI_ERROR_MISSING_ARGUMENT),
                emit (Stderr ''Missing argument, INTERFACE.METHOD [ARGUMENTS] expected\<newline>'') s)
             else if r = - CLI_ERROR x CLI_ERROR_INVALID_ARGUMENT then
               (Return (- CLI_ERROR x CLI_ERROR_INVALID_ARGUMENT),
                emit (Stderr ''Invalid argument, INTERFACE.METHOD [ARGUMENTS] expected\<newline>'') s)
             else
               (Return (- CLI_ERROR x CLI_ERROR_PANIC), emit (Stderr ''Unknown error.\<newline>'') s)
         | Inr arguments \<Rightarrow>
             if help arguments then (Return 0, s\<lparr>trace := trace s @ usage x\<rparr>)
             else
               (case uri arguments of
                  None \<Rightarrow> (Undefined, s)
                | Some u \<Rightarrow>
                    (case qualified_member u of
                       None \<Rightarrow>
                         (Return (- CLI_ERROR x CLI_ERROR_INVALID_ARGUMENT),
                          emit (Stderr ''Missing method.\<newline>'') s)
                     | Some member \<Rightarrow>
                         (case call_run_parameters x (parameters arguments) inp s of
                            Inl done \<Rightarrow> done
                          | Inr (params, s) \<Rightarrow>
                              call_run_connection x u member params (flags arguments) events s))))"

text \<open>A trace without network traffic: no connect and no call.\<close>

definition no_network :: "'o action list \<Rightarrow> bool" where
  "no_network tr =
     list_all (\<lambda>a. case a of Connect u \<Rightarrow> False | Call m p fl \<Rightarrow> False | _ \<Rightarrow> True) tr"

section \<open>The help command\<close>

text \<open>
  \<^verbatim>\<open>command-help.c\<close> uses further library functions, and a \<^verbatim>\<open>cli_connect\<close> that
  takes an address (field \<open>cli_connect_address\<close>). \<open>cli_wait_reply\<close> is what the wait
  for the reply gives: the status, the reply and the error name.
\<close>

record ('o, 'i) help_extern = "'o extern" +
  cli_split_address :: "string \<Rightarrow> string option \<times> string"
  cli_resolve :: "string \<Rightarrow> int \<times> string"
  cli_connect_address :: "string \<Rightarrow> int"
  varlink_object_new :: "'o"
  varlink_object_set_string :: "'o \<Rightarrow> string \<Rightarrow> string \<Rightarrow> 'o"
  cli_call :: "string \<Rightarrow> 'o \<Rightarrow> 64 word \<Rightarrow> int"
  cli_wait_reply :: "int \<times> 'o \<times> string option"
  varlink_object_get_string :: "'o \<Rightarrow> string \<Rightarrow> int \<times> string"
  varlink_interface_new :: "string \<Rightarrow> int \<times> 'i"
  varlink_interface_write_interfacestring :: "'i \<Rightarrow> int \<times> string"

definition help_options :: "(string \<times> int) list" where
  "help_options = [(''help'', opt_h)]"

subsection \<open>\<^verbatim>\<open>help_interface\<close>\<close>

definition help_interface :: "('o, 'i) help_extern \<Rightarrow> string \<Rightarrow> int \<times> 'o action list" where
  "help_interface x name =
     (let parameters = varlink_object_set_string x (varlink_object_new x) ''interface'' name;
          r = cli_call x ''org.varlink.service.GetInterfaceDescription'' parameters 0
      in if r < 0 then (r, [])
         else
           let (r, reply, err) = cli_wait_reply x
           in if r < 0 then (r, [])
              else
                (case err of
                   Some e \<Rightarrow> (0, [Stdout (''Error: '' @ e @ ''\<newline>'')])
                 | None \<Rightarrow>
                     let (r, interfacestring) = varlink_object_get_string x reply ''description''
                     in if r < 0 then (- CLI_ERROR x CLI_ERROR_CALL_FAILED, [])
                        else
                          let (r, interface) = varlink_interface_new x interfacestring
                          in if r < 0 then (- CLI_ERROR x CLI_ERROR_PANIC, [])
                             else
                               let (r, string) = varlink_interface_write_interfacestring x interface
                               in if r < 0 then (r, [])
                                  else (0, [Stdout (string @ ''\<newline>'')])))"

subsection \<open>\<^verbatim>\<open>help_run\<close>\<close>

text \<open>
  \<^verbatim>\<open>help_run\<close> in two parts. \<open>help_run_target\<close> is lines 72 to 102: \<open>Inl\<close> is a
  return, \<open>Inr\<close> the address and the interface name the command goes on with. The body
  of the option loop returns at every value the parser gives, so only the first one
  counts. \<^verbatim>\<open>argv[optind]\<close> is the null pointer when \<open>optind\<close> is \<^verbatim>\<open>argc\<close>.
  \<open>help_connect\<close> is lines 104 to 114.
\<close>

definition help_run_target ::
  "('o, 'i) help_extern \<Rightarrow> string list \<Rightarrow> int \<times> 'o action list + string \<times> string" where
  "help_run_target x argv =
     (let (codes, optind, argv) = getopt_long x argv ''a:h'' help_options
      in if codes \<noteq> [] \<and> hd codes \<ge> 0 then
           (if hd codes = opt_h then
              Inl (EXIT_SUCCESS,
                   [Stdout (''Usage: '' @ program_invocation_short_name x
                              @ '' help [ADDRESS/]INTERFACE\<newline>''),
                    Stdout ''\<newline>'',
                    Stdout ''Prints information about INTERFACE.\<newline>'',
                    Stdout ''\<newline>'',
                    Stdout ''  -h, --help             display this help text and exit\<newline>''])
            else
              Inl (EXIT_FAILURE,
                   [Stderr (''Try '' @ [CHR 0x27] @ program_invocation_short_name x
                              @ '' --help'' @ [CHR 0x27] @ '' for more information\<newline>'')]))
         else if optind \<ge> length argv then
           Inl (EXIT_FAILURE,
                [Stderr (''Usage: '' @ program_invocation_short_name x
                           @ '' help [ADDRESS/]INTERFACE\<newline>'')])
         else
           let (address, interface) = cli_split_address x (argv ! optind)
           in case address of
                Some a \<Rightarrow> Inr (a, interface)
              | None \<Rightarrow>
                  let (r, a) = cli_resolve x interface
                  in if r < 0 then
                       Inl (CLI_ERROR x CLI_ERROR_CANNOT_RESOLVE,
                            [Stderr (''Error resolving interface '' @ interface @ ''\<newline>'')])
                     else Inr (a, interface))"

definition help_connect ::
  "('o, 'i) help_extern \<Rightarrow> string \<Rightarrow> string \<Rightarrow> int \<times> 'o action list" where
  "help_connect x address interface =
     (let r = cli_connect_address x address
      in if r < 0 then
           (CLI_ERROR x CLI_ERROR_CANNOT_CONNECT,
            [Stderr (''Error connecting to '' @ address @ ''\<newline>'')])
         else
           let (r, out) = help_interface x interface
           in if r < 0 then (EXIT_FAILURE, out) else (EXIT_SUCCESS, out))"

definition help_run :: "('o, 'i) help_extern \<Rightarrow> string list \<Rightarrow> int \<times> 'o action list" where
  "help_run x argv =
     (case help_run_target x argv of
        Inl done \<Rightarrow> done
      | Inr (address, interface) \<Rightarrow> help_connect x address interface)"

section \<open>The option parser of the C library\<close>

text \<open>
  \<^verbatim>\<open>getopt_long\<close> of the GNU C library in its default mode, for option strings with
  plain options and options with a required argument, and long options without arguments.
  An element that starts with \<^verbatim>\<open>--\<close> is a long option, matched by its full name or
  by a prefix that fits one name only; any other element that starts with \<^verbatim>\<open>-\<close> and
  is longer than that is a cluster of short options; the element \<^verbatim>\<open>--\<close> ends the
  options; everything else is an operand, and the operands are moved behind the options.
  The theorems hold for every option parser; this one runs the concrete examples.
\<close>

definition short_option :: "string \<Rightarrow> char \<Rightarrow> bool option" where
  "short_option optstring c =
     (if c = CHR '':'' \<or> c = CHR '';'' \<or> c \<notin> set optstring then None
      else case dropWhile (\<lambda>d. d \<noteq> c) optstring of
             _ # d # _ \<Rightarrow> Some (d = CHR '':'')
           | _ \<Rightarrow> Some False)"

fun short_cluster :: "string \<Rightarrow> string \<Rightarrow> int list \<times> bool" where
  "short_cluster optstring [] = ([], False)"
| "short_cluster optstring (c # cs) =
     (case short_option optstring c of
        None \<Rightarrow> (let (codes, more) = short_cluster optstring cs in (opt_unknown # codes, more))
      | Some False \<Rightarrow> (let (codes, more) = short_cluster optstring cs in (of_char c # codes, more))
      | Some True \<Rightarrow> ([of_char c], cs = []))"

definition long_option :: "(string \<times> int) list \<Rightarrow> string \<Rightarrow> int" where
  "long_option longopts text =
     (let name = takeWhile (\<lambda>c. c \<noteq> CHR ''='') text;
          exact = filter (\<lambda>(n, v). n = name) longopts;
          abbreviated = filter (\<lambda>(n, v). take (length name) n = name) longopts
      in case (if exact \<noteq> [] then take 1 exact else abbreviated) of
           [(n, v)] \<Rightarrow> if CHR ''='' \<in> set text then opt_unknown else v
         | _ \<Rightarrow> opt_unknown)"

fun getopt_scan ::
  "string \<Rightarrow> (string \<times> int) list \<Rightarrow> string list \<Rightarrow> int list \<times> string list \<times> string list" where
  "getopt_scan optstring longopts [] = ([], [], [])"
| "getopt_scan optstring longopts (a # rest) =
     (if a = ''--'' then ([], [a], rest)
      else if take 2 a = ''--'' then
        (let (codes, opts, operands) = getopt_scan optstring longopts rest
         in (long_option longopts (drop 2 a) # codes, a # opts, operands))
      else if take 1 a = ''-'' \<and> a \<noteq> ''-'' then
        (case short_cluster optstring (drop 1 a) of
           (cs, False) \<Rightarrow>
             (let (codes, opts, operands) = getopt_scan optstring longopts rest
              in (cs @ codes, a # opts, operands))
         | (cs, True) \<Rightarrow>
             (case rest of
                [] \<Rightarrow> (butlast cs @ [if take 1 optstring = '':'' then opt_colon else opt_unknown],
                       [a], [])
              | b # rest' \<Rightarrow>
                  (let (codes, opts, operands) = getopt_scan optstring longopts rest'
                   in (cs @ codes, a # b # opts, operands))))
      else
        (let (codes, opts, operands) = getopt_scan optstring longopts rest
         in (codes, opts, a # operands)))"

definition gnu_getopt_long ::
  "string list \<Rightarrow> string \<Rightarrow> (string \<times> int) list \<Rightarrow> int list \<times> nat \<times> string list" where
  "gnu_getopt_long argv optstring longopts =
     (case argv of
        [] \<Rightarrow> ([], 1, [])
      | prog # args \<Rightarrow>
          let (codes, opts, operands) = getopt_scan optstring longopts args
          in (codes, 1 + length opts, prog # opts @ operands))"

section \<open>A stub library\<close>

text \<open>
  A small library to run the commands on: error codes numbered from 1, both flag bits the
  lowest bit, a target that has a member when it contains a dot, JSON objects kept as
  their text (a text is an object when it starts with a brace), the empty text as the one
  value that cannot be rendered, a connection and a call that always succeed, and an
  allocator that grants blocks of up to one mebibyte. \<open>stub_small_memory\<close> is the same
  library with an allocator that grants no more than 1024 bytes.
\<close>

primrec stub_CLI_ERROR :: "cli_error \<Rightarrow> int" where
  "stub_CLI_ERROR CLI_ERROR_PANIC = 1"
| "stub_CLI_ERROR CLI_ERROR_CANNOT_RESOLVE = 2"
| "stub_CLI_ERROR CLI_ERROR_MISSING_ARGUMENT = 3"
| "stub_CLI_ERROR CLI_ERROR_INVALID_ARGUMENT = 4"
| "stub_CLI_ERROR CLI_ERROR_INVALID_JSON = 5"
| "stub_CLI_ERROR CLI_ERROR_CANNOT_CONNECT = 6"
| "stub_CLI_ERROR CLI_ERROR_CALL_FAILED = 7"
| "stub_CLI_ERROR CLI_ERROR_REMOTE_ERROR = 8"
| "stub_CLI_ERROR CLI_ERROR_CANCELED = 9"
| "stub_CLI_ERROR CLI_ERROR_CONNECTION_CLOSED = 10"

definition stub :: "string extern" where
  "stub =
     \<lparr>CLI_ERROR = stub_CLI_ERROR,
      VARLINK_CALL_MORE = 1,
      VARLINK_REPLY_CONTINUES = 1,
      program_invocation_short_name = ''varlink'',
      getopt_long = gnu_getopt_long,
      realloc = (\<lambda>n. n \<le> 1048576),
      varlink_uri_new =
        (\<lambda>text. (if text = [] then - 1 else 0,
                  \<lparr>qualified_member = (if CHR ''.'' \<in> set text then Some text else None)\<rparr>)),
      varlink_object_new_from_json = (\<lambda>text. (if take 1 text = ''{'' then 0 else - 1, text)),
      varlink_object_to_pretty_json = (\<lambda>obj. (if obj = [] then - 1 else 0, obj)),
      varlink_error_string = (\<lambda>r. ''Invalid message''),
      cli_error_string = (\<lambda>r. ''Failure''),
      cli_connect = (\<lambda>u. 0),
      varlink_connection_call = (\<lambda>member params fl. 0)\<rparr>"

definition small_memory :: "nat \<Rightarrow> bool" where
  "small_memory n = (n \<le> 1024)"

definition stub_small_memory :: "string extern" where
  "stub_small_memory = stub\<lparr>realloc := small_memory\<rparr>"

text \<open>
  The stub for the help command: a service found at a fixed address, whose answer to the
  call is the argument; an interface description parses when it starts with the word
  \<^verbatim>\<open>interface\<close>.
\<close>

definition help_stub :: "int \<times> string \<times> string option \<Rightarrow> (string, string) help_extern" where
  "help_stub answer =
     \<lparr>CLI_ERROR = stub_CLI_ERROR,
      VARLINK_CALL_MORE = 1,
      VARLINK_REPLY_CONTINUES = 1,
      program_invocation_short_name = ''varlink'',
      getopt_long = gnu_getopt_long,
      realloc = realloc stub,
      varlink_uri_new = varlink_uri_new stub,
      varlink_object_new_from_json = varlink_object_new_from_json stub,
      varlink_object_to_pretty_json = varlink_object_to_pretty_json stub,
      varlink_error_string = (\<lambda>r. ''Invalid message''),
      cli_error_string = (\<lambda>r. ''Failure''),
      cli_connect = (\<lambda>u. 0),
      varlink_connection_call = (\<lambda>member params fl. 0),
      cli_split_address = (\<lambda>text. (None, text)),
      cli_resolve = (\<lambda>interface. (0, ''unix:/run/org.varlink.resolver'')),
      cli_connect_address = (\<lambda>address. 0),
      varlink_object_new = ''{}'',
      varlink_object_set_string = (\<lambda>obj field v. ''{'' @ field @ '':'' @ v @ ''}''),
      cli_call = (\<lambda>member params fl. 0),
      cli_wait_reply = answer,
      varlink_object_get_string = (\<lambda>obj field. (0, obj)),
      varlink_interface_new =
        (\<lambda>text. (if take 9 text = ''interface'' then 0 else - 1, text)),
      varlink_interface_write_interfacestring = (\<lambda>interface. (0, interface))\<rparr>"

section \<open>The reply callback\<close>

lemmas run_defs = reply_callback_def emit_def varlink_connection_close_def

lemma reply_callback_returns_0: "fst (reply_callback x err p fl s) = 0"
  by (simp add: run_defs Let_def split: prod.splits option.splits)

text \<open>
  Claim C10. A reply that carries a remote error name and a value that fails to render
  leaves \<^verbatim>\<open>CLI_ERROR_INVALID_JSON\<close> in the error variable, not
  \<^verbatim>\<open>CLI_ERROR_REMOTE_ERROR\<close>: the branch of the render failure closes the connection
  and returns before the branch of the remote error is reached. The error line has been
  printed by then, and the line of the render failure follows it.
\<close>

theorem reply_error_render_failure_records_invalid_json:
  assumes "varlink_object_to_pretty_json x p = (r, json)" and "r < 0"
  shows "fst (reply_callback x (Some e) p fl s) = 0
       \<and> error (snd (reply_callback x (Some e) p fl s)) = CLI_ERROR x CLI_ERROR_INVALID_JSON
       \<and> (CLI_ERROR x CLI_ERROR_INVALID_JSON \<noteq> CLI_ERROR x CLI_ERROR_REMOTE_ERROR \<longrightarrow>
             error (snd (reply_callback x (Some e) p fl s)) \<noteq> CLI_ERROR x CLI_ERROR_REMOTE_ERROR)
       \<and> closed (snd (reply_callback x (Some e) p fl s))
       \<and> trace (snd (reply_callback x (Some e) p fl s)) =
            trace s @ [Stderr (''Call failed with error: '' @ e @ ''\<newline>''),
                       Stderr (''Unable to read message: '' @ varlink_error_string x (- r) @ ''\<newline>'')]"
  using assms by (simp add: run_defs)

theorem reply_error_render_failure_records_invalid_json_witness:
  "fst (reply_callback stub (Some ''org.example.Failed'') [] 1 \<lparr>error = 0, closed = False, trace = []\<rparr>) = 0
   \<and> error (snd (reply_callback stub (Some ''org.example.Failed'') [] 1 \<lparr>error = 0, closed = False, trace = []\<rparr>)) = 5
   \<and> error (snd (reply_callback stub (Some ''org.example.Failed'') [] 1 \<lparr>error = 0, closed = False, trace = []\<rparr>)) \<noteq> 8
   \<and> closed (snd (reply_callback stub (Some ''org.example.Failed'') [] 1 \<lparr>error = 0, closed = False, trace = []\<rparr>))
   \<and> trace (snd (reply_callback stub (Some ''org.example.Failed'') [] 1 \<lparr>error = 0, closed = False, trace = []\<rparr>)) =
      [Stderr ''Call failed with error: org.example.Failed\<newline>'',
       Stderr ''Unable to read message: Invalid message\<newline>'']"
proof -
  have h: "varlink_object_to_pretty_json stub [] = (- 1, [])" "(- 1 :: int) < 0"
    by (simp_all add: stub_def)
  show ?thesis
    using reply_error_render_failure_records_invalid_json
      [OF h, of "''org.example.Failed''" 1 "\<lparr>error = 0, closed = False, trace = []\<rparr>"]
    by (simp add: stub_def)
qed

section \<open>The reply loop\<close>

lemmas stub_defs = stub_def gnu_getopt_long_def long_option_def short_option_def
  opt_h_def opt_m_def opt_unknown_def opt_colon_def options_def help_options_def

lemmas call_defs = call_run_def call_arguments_new_def call_run_parameters_def
  call_run_connection_def

text \<open>While the loop waits, events that come after the wait do not matter before it.\<close>

lemma events_append:
  "cli_process_all_events x cfl pre s = (None, s') \<Longrightarrow>
   cli_process_all_events x cfl (pre @ es) s = cli_process_all_events x cfl es s'"
  by (induction x cfl pre s rule: cli_process_all_events.induct)
     (auto split: prod.splits if_splits)

text \<open>
  The callback by itself closes the connection after a rendered success reply exactly
  when the continues bit of the reply is clear; it does not see the flags of the call.
  Every \<^verbatim>\<open>-m\<close> among the options sets \<^verbatim>\<open>VARLINK_CALL_MORE\<close> in the flags of the call.
\<close>

lemma reply_callback_closes_iff_not_continues:
  assumes "varlink_object_to_pretty_json x p = (r, json)" and "0 \<le> r" and "\<not> closed s"
  shows "closed (snd (reply_callback x None p fl s)) = (fl AND VARLINK_REPLY_CONTINUES x = 0)"
  using assms by (simp add: run_defs Let_def)

lemma more_option_sets_flag:
  "call_arguments_options x (opt_m # cs) a =
   call_arguments_options x cs (a\<lparr>flags := flags a OR VARLINK_CALL_MORE x\<rparr>)"
  by (simp add: opt_m_def opt_h_def)



text \<open>
  A reply whose value cannot be rendered ends the run with the return value 0, for every
  library, with or without an error name in the reply.
\<close>

lemma render_failure_returns_0:
  assumes "varlink_object_to_pretty_json x p = (r, json)" and "r < 0"
    and "0 \<le> cli_connect x u" and "0 \<le> varlink_connection_call x m params cfl"
  shows "fst (call_run_connection x u m params cfl (Reply err p fl # es) s) = Return 0"
  using assms by (cases err) (simp_all add: run_defs call_run_connection_def)

text \<open>
  Claim C2. A reply whose value cannot be rendered is reported, the error variable gets
  \<^verbatim>\<open>CLI_ERROR_INVALID_JSON\<close> and the connection is closed, so far as the claim has it.
  The exit status is not the code of InvalidJson: \<^verbatim>\<open>call_run\<close> never reads the error
  variable, the event loop returns a non-negative value after the close, and the run
  returns 0. The run below is \<^verbatim>\<open>varlink call a.b\<close> against a service whose reply cannot
  be rendered.
\<close>

theorem render_failure_exit_status_0:
  "call_run stub [''call'', ''a.b''] [] [Reply None [] 0] =
     (Return 0,
      \<lparr>error = 5, closed = True,
       trace = [Connect \<lparr>qualified_member = Some ''a.b''\<rparr>, Call ''a.b'' None 0,
                Stderr ''Unable to read message: Invalid message\<newline>'']\<rparr>)
   \<and> CLI_ERROR stub CLI_ERROR_INVALID_JSON = 5"
  by (simp add: call_defs stub_defs run_defs)

text \<open>
  Claim C3, as amended. For every reply that carries a remote error name, the error line
  is printed first and the callback closes the connection, so the loop ends, whatever
  the flags of the call (\<open>cfl\<close>), the flags of the reply (\<open>fl\<close>) and the events that
  would follow (\<open>es\<close>). When the value of the reply can be rendered, it is rendered once
  after the error line, \<^verbatim>\<open>CLI_ERROR_REMOTE_ERROR\<close> is recorded, and the run returns 0.
\<close>

theorem remote_error_reply_ends_call:
  assumes "varlink_object_to_pretty_json x p = (r, json)" and "0 \<le> r"
    and "0 \<le> cli_connect x u" and "0 \<le> varlink_connection_call x m params cfl"
  shows "call_run_connection x u m params cfl (Reply (Some e) p fl # es) s =
           (Return 0,
            varlink_connection_close
              ((emit (Stdout (json @ ''\<newline>''))
                  (emit (Stderr (''Call failed with error: '' @ e @ ''\<newline>''))
                     (emit (Call m params cfl) (emit (Connect u) s))))
               \<lparr>error := CLI_ERROR x CLI_ERROR_REMOTE_ERROR\<rparr>))
       \<and> closed (snd (reply_callback x (Some e) q fl t))
       \<and> take (Suc (length (trace t))) (trace (snd (reply_callback x (Some e) q fl t))) =
           trace t @ [Stderr (''Call failed with error: '' @ e @ ''\<newline>'')]
       \<and> fst (cli_process_all_events x cfl (Reply (Some e) q fl # es) t) = Some 0"
proof -
  have run: "call_run_connection x u m params cfl (Reply (Some e) p fl # es) s =
           (Return 0,
            varlink_connection_close
              ((emit (Stdout (json @ ''\<newline>''))
                  (emit (Stderr (''Call failed with error: '' @ e @ ''\<newline>''))
                     (emit (Call m params cfl) (emit (Connect u) s))))
               \<lparr>error := CLI_ERROR x CLI_ERROR_REMOTE_ERROR\<rparr>))"
    using assms by (simp add: run_defs call_run_connection_def)
  obtain rq jq where q: "varlink_object_to_pretty_json x q = (rq, jq)"
    by (cases "varlink_object_to_pretty_json x q") auto
  have cl: "closed (snd (reply_callback x (Some e) q fl t))"
    using q by (simp add: run_defs Let_def)
  have tr: "take (Suc (length (trace t))) (trace (snd (reply_callback x (Some e) q fl t))) =
           trace t @ [Stderr (''Call failed with error: '' @ e @ ''\<newline>'')]"
    using q by (simp add: run_defs Let_def)
  have "fst (reply_callback x (Some e) q fl t) = 0"
    by (rule reply_callback_returns_0)
  then have lp: "fst (cli_process_all_events x cfl (Reply (Some e) q fl # es) t) = Some 0"
    using cl by (cases "reply_callback x (Some e) q fl t") simp
  show ?thesis
    using run cl tr lp by simp
qed

theorem remote_error_reply_ends_call_witness:
  "call_run_connection stub \<lparr>qualified_member = Some ''a.b''\<rparr> ''a.b'' None 1
     [Reply (Some ''org.example.Failed'') ''{1}'' 1, Reply None ''{2}'' 0]
     \<lparr>error = 0, closed = False, trace = []\<rparr> =
   (Return 0,
    \<lparr>error = 8, closed = True,
     trace = [Connect \<lparr>qualified_member = Some ''a.b''\<rparr>, Call ''a.b'' None 1,
              Stderr ''Call failed with error: org.example.Failed\<newline>'',
              Stdout ''{1}\<newline>'']\<rparr>)
   \<and> closed (snd (reply_callback stub (Some ''org.example.Failed'') [] 1
                    \<lparr>error = 0, closed = False, trace = []\<rparr>))
   \<and> fst (cli_process_all_events stub 1
            [Reply (Some ''org.example.Failed'') [] 1, Reply None ''{2}'' 0]
            \<lparr>error = 0, closed = False, trace = []\<rparr>) = Some 0"
proof -
  have h: "varlink_object_to_pretty_json stub ''{1}'' = (0, ''{1}'')" "(0::int) \<le> 0"
    "0 \<le> cli_connect stub \<lparr>qualified_member = Some ''a.b''\<rparr>"
    "0 \<le> varlink_connection_call stub ''a.b'' None 1"
    by (simp_all add: stub_def)
  show ?thesis
    using remote_error_reply_ends_call [OF h, of "''org.example.Failed''" 1 "[Reply None ''{2}'' 0]"
                "\<lparr>error = 0, closed = False, trace = []\<rparr>" "[]"
                "\<lparr>error = 0, closed = False, trace = []\<rparr>"]
    by (simp add: stub_def emit_def varlink_connection_close_def)
qed

text \<open>
  Without the condition on the value the sentence fails: a reply with an error name and
  a value that cannot be rendered gets its error line, but the value is not rendered;
  the line of the render failure is printed in its place.
\<close>

theorem remote_error_value_not_rendered_counterexample:
  "call_run stub [''call'', ''a.b''] [] [Reply (Some ''org.example.Failed'') [] 0] =
     (Return 0,
      \<lparr>error = 5, closed = True,
       trace = [Connect \<lparr>qualified_member = Some ''a.b''\<rparr>, Call ''a.b'' None 0,
                Stderr ''Call failed with error: org.example.Failed\<newline>'',
                Stderr ''Unable to read message: Invalid message\<newline>'']\<rparr>)"
  by (simp add: call_defs stub_defs run_defs)

text \<open>
  Claim C4. When the cancellation signal arrives while the loop waits for a reply (the
  events \<open>pre\<close> have left it waiting in state \<open>s'\<close>), the run returns 0 in that very
  state: nothing is rendered or printed after the signal, whatever events \<open>post\<close> were
  still to come, and no error is reported.
\<close>

theorem cancellation_is_success:
  assumes "0 \<le> cli_connect x u" and "0 \<le> varlink_connection_call x m params cfl"
    and "cli_process_all_events x cfl pre (emit (Call m params cfl) (emit (Connect u) s)) =
           (None, s')"
  shows "call_run_connection x u m params cfl (pre @ Interrupt # post) s = (Return 0, s')"
  using assms by (simp add: call_run_connection_def events_append)

theorem cancellation_is_success_witness:
  "call_run_connection stub \<lparr>qualified_member = Some ''a.b''\<rparr> ''a.b'' None 1
     ([Reply None ''{1}'' 1] @ Interrupt # [Reply None ''{2}'' 0])
     \<lparr>error = 0, closed = False, trace = []\<rparr> =
   (Return 0,
    \<lparr>error = 0, closed = False,
     trace = [Connect \<lparr>qualified_member = Some ''a.b''\<rparr>, Call ''a.b'' None 1,
              Stdout ''{1}\<newline>'']\<rparr>)"
proof -
  have h: "0 \<le> cli_connect stub \<lparr>qualified_member = Some ''a.b''\<rparr>"
    "0 \<le> varlink_connection_call stub ''a.b'' None 1"
    "cli_process_all_events stub 1 [Reply None ''{1}'' 1]
       (emit (Call ''a.b'' None 1)
          (emit (Connect \<lparr>qualified_member = Some ''a.b''\<rparr>)
             \<lparr>error = 0, closed = False, trace = []\<rparr>)) =
     (None, \<lparr>error = 0, closed = False,
             trace = [Connect \<lparr>qualified_member = Some ''a.b''\<rparr>, Call ''a.b'' None 1,
                      Stdout ''{1}\<newline>'']\<rparr>)"
    by (simp_all add: stub_def run_defs)
  show ?thesis
    using cancellation_is_success [OF h, of "[Reply None ''{2}'' 0]"] by simp
qed

section \<open>Parameters from standard input\<close>

text \<open>
  A read that returns nothing or an error ends the delivery; a read that returns bytes
  returns the next bytes of it, as many as it says and no more than asked for.
\<close>

lemma read_STDIN_end:
  "read_STDIN inp n = (r, bytes, inp') \<Longrightarrow> 0 < n \<Longrightarrow> r \<le> 0 \<Longrightarrow> delivered inp = []"
  by (induction inp n rule: read_STDIN.induct) (auto simp: Let_def split: if_splits)

lemma read_STDIN_bytes:
  "read_STDIN inp n = (r, bytes, inp') \<Longrightarrow> 0 < r \<Longrightarrow>
   nat r = length bytes \<and> length bytes \<le> n \<and> delivered inp = bytes @ delivered inp'"
  by (induction inp n rule: read_STDIN.induct)
     (auto simp: Let_def min_def split: if_splits)

text \<open>
  The loop, started with no more bytes stored than the buffer holds, on an input that
  delivers fewer than \<open>2 ^ 63\<close> bytes in all, with an allocator that grants every
  capacity up to twice that many bytes (and 1024 at least): it stores what the input
  delivers and stops with room left.
\<close>

lemma read_loop_delivers:
  "sz \<le> buffer_size \<Longrightarrow> sz + length (delivered inp) < 2 ^ 63 \<Longrightarrow>
   \<forall>n \<le> max 1024 (2 * (sz + length (delivered inp))). granted n \<Longrightarrow>
   \<exists>bs inp'. read_loop granted buffer_size sz buffer inp =
                Some (bs, sz + length (delivered inp), buffer @ delivered inp, inp')
            \<and> sz + length (delivered inp) < bs"
proof (induction granted buffer_size sz buffer inp rule: read_loop.induct)
  case (1 granted buffer_size sz buffer inp)
  define bs where
    "bs = (if sz = buffer_size then max (buffer_size * 2 mod 2 ^ 64) 1024 else buffer_size)"
  have small: "sz < 2 ^ 63"
    using "1.prems" by simp
  have doubled: "bs = max (sz * 2) 1024" if "sz = buffer_size"
  proof -
    have "buffer_size * 2 < 2 ^ 64"
      using small that by simp
    then have "buffer_size * 2 mod 2 ^ 64 = buffer_size * 2"
      by simp
    then show ?thesis
      using that by (simp add: bs_def)
  qed
  have grown: "sz < bs"
  proof (cases "sz = buffer_size")
    case True
    then show ?thesis
      using doubled by simp
  next
    case False
    then show ?thesis
      using "1.prems" by (simp add: bs_def)
  qed
  have allocated: "granted bs" if "sz = buffer_size"
  proof -
    have "bs \<le> max 1024 (2 * (sz + length (delivered inp)))"
      using doubled [OF that] by simp
    then show ?thesis
      using "1.prems"(3) by blast
  qed
  obtain r bytes inp' where rd: "read_STDIN inp (bs - sz) = (r, bytes, inp')"
    by (cases "read_STDIN inp (bs - sz)") auto
  have "read_loop granted buffer_size sz buffer inp =
      (if sz = buffer_size \<and> \<not> granted bs then None
       else if bs < sz then None
       else case read_STDIN inp (bs - sz) of (r, bytes, inp') \<Rightarrow>
              if r \<le> 0 then Some (bs, sz, buffer, inp')
              else read_loop granted bs (sz + nat r) (buffer @ bytes) inp')"
    unfolding bs_def by (subst read_loop.simps) (simp only: Let_def)
  then have unfold: "read_loop granted buffer_size sz buffer inp =
      (if r \<le> 0 then Some (bs, sz, buffer, inp')
       else read_loop granted bs (sz + nat r) (buffer @ bytes) inp')"
    using grown allocated rd by auto
  show ?case
  proof (cases "r \<le> 0")
    case True
    have "delivered inp = []"
      using read_STDIN_end [OF rd] grown True by simp
    then show ?thesis
      using True unfold grown by simp
  next
    case False
    then have pos: "0 < r" by simp
    note b = read_STDIN_bytes [OF rd pos]
    have le: "sz + nat r \<le> bs"
      using b grown by auto
    have bound: "sz + nat r + length (delivered inp') < 2 ^ 63"
      using b "1.prems" by simp
    have grants: "\<forall>n \<le> max 1024 (2 * (sz + nat r + length (delivered inp'))). granted n"
      using b "1.prems"(3) by (simp add: add.assoc)
    have "\<exists>bs' inp''. read_loop granted bs (sz + nat r) (buffer @ bytes) inp' =
             Some (bs', sz + nat r + length (delivered inp'),
                   (buffer @ bytes) @ delivered inp', inp'')
           \<and> sz + nat r + length (delivered inp') < bs'"
      using grown allocated rd False le bound grants
      by (intro "1.IH" [where xa = bs]) (auto simp: bs_def)
    then show ?thesis
      using unfold False b by (simp add: add.assoc)
  qed
qed

lemma c_string_terminated: "CHR 0x00 \<notin> set bytes \<Longrightarrow> c_string (bytes @ [CHR 0x00]) = bytes"
  by (induction bytes) (auto simp: c_string_def)

lemma read_parameters_delivered:
  assumes "length (delivered inp) < 2 ^ 63"
    and "\<forall>n \<le> max 1024 (2 * length (delivered inp)). granted n"
  shows "read_parameters granted inp = Some (c_string (delivered inp @ [CHR 0x00]))"
proof -
  obtain bs inp' where
    "read_loop granted 0 0 [] inp = Some (bs, length (delivered inp), delivered inp, inp')"
    "length (delivered inp) < bs"
    using read_loop_delivers [of 0 0 inp granted "[]"] assms by auto
  then show ?thesis
    by (simp add: read_parameters_def)
qed

lemma delivered_chunks: "[] \<notin> set chunks \<Longrightarrow> delivered (map Data chunks) = concat chunks"
  by (induction chunks) auto

text \<open>
  When the allocator does not grant the first 1024 bytes, the loop goes through the null
  pointer at once, whatever the input.
\<close>

lemma read_loop_first_realloc_fails:
  "\<not> granted 1024 \<Longrightarrow> read_loop granted 0 0 [] inp = None"
  by (subst read_loop.simps) simp

text \<open>
  Claim C9, as amended. For every standard input that delivers fewer than \<open>2 ^ 63\<close>
  bytes, read with an allocator that grants every capacity the loop asks for (all blocks
  of up to twice the bytes delivered, and of 1024 bytes at least), the loop of
  \<^verbatim>\<open>call_run\<close> ends with fewer bytes stored than the buffer has room for: the capacity
  is doubled before a read whenever the buffer is full. So the null byte written after
  the loop is inside the buffer, and the text handed to the JSON decoder is the
  null-terminated content of the buffer.
\<close>

theorem read_loop_leaves_room_when_granted:
  assumes "length (delivered inp) < 2 ^ 63"
    and "\<forall>n \<le> max 1024 (2 * length (delivered inp)). granted n"
  shows "\<exists>buffer_size sz buffer inp'.
           read_loop granted 0 0 [] inp = Some (buffer_size, sz, buffer, inp')
         \<and> sz < buffer_size \<and> length buffer = sz
         \<and> read_parameters granted inp = Some (c_string (buffer @ [CHR 0x00]))"
proof -
  obtain bs inp' where loop:
    "read_loop granted 0 0 [] inp = Some (bs, length (delivered inp), delivered inp, inp')"
    and room: "length (delivered inp) < bs"
    using read_loop_delivers [of 0 0 inp granted "[]"] assms by auto
  have "read_parameters granted inp = Some (c_string (delivered inp @ [CHR 0x00]))"
    using loop room by (simp add: read_parameters_def)
  then show ?thesis
    using loop room by simp
qed

theorem read_loop_leaves_room_when_granted_witness:
  "read_loop (realloc stub) 0 0 [] [Data ''{'', Data ''}'', Data [], Data ''x''] =
     Some (1024, 2, ''{}'', [Data ''x''])
   \<and> read_parameters (realloc stub) [Data ''{'', Data ''}'', Data [], Data ''x''] = Some ''{}''"
proof -
  have h: "length (delivered [Data ''{'', Data ''}'', Data [], Data ''x'']) < 2 ^ 63"
    "\<forall>n \<le> max 1024 (2 * length (delivered [Data ''{'', Data ''}'', Data [], Data ''x''])).
       realloc stub n"
    by (simp_all add: stub_def)
  show ?thesis
    using read_loop_leaves_room_when_granted [OF h]
    by (simp add: read_parameters_def c_string_def stub_def)
qed

text \<open>
  The sentence as the spec has it, for every standard input, fails where a reallocation
  fails, since the source does not test the result of \<^verbatim>\<open>realloc\<close>. With an allocator
  that grants 1024 bytes and no more, an input of 1024 bytes fills the buffer, the
  doubling to 2048 bytes is refused, \<^verbatim>\<open>buffer\<close> becomes the null pointer, and the null
  byte is stored through it, outside any allocation.
\<close>

theorem realloc_failure_counterexample:
  "small_memory 1024 \<and> \<not> small_memory 2048
   \<and> read_loop small_memory 0 0 [] [Data (replicate 1024 (CHR ''a''))] = None
   \<and> read_parameters small_memory [Data (replicate 1024 (CHR ''a''))] = None
   \<and> call_run stub_small_memory [''call'', ''a.b'', ''-''] [Data (replicate 1024 (CHR ''a''))]
        [] = (Undefined, \<lparr>error = 0, closed = False, trace = []\<rparr>)"
proof -
  have loop: "read_loop small_memory 0 0 [] [Data (replicate 1024 (CHR ''a''))] = None"
    by (simp add: small_memory_def)
  then have "read_parameters small_memory [Data (replicate 1024 (CHR ''a''))] = None"
    by (simp add: read_parameters_def)
  then show ?thesis
    using loop by (simp add: call_defs stub_defs stub_small_memory_def small_memory_def)
qed

text \<open>
  Claim C5. A JSON text \<open>J\<close> given on standard input, in whatever chunks the reads
  deliver it, with the parameter token \<^verbatim>\<open>-\<close>, is decoded to the same parameter object
  as \<open>J\<close> given as the parameter token itself, and the whole run is the same. \<open>J\<close> is a
  C string (no null byte) other than the token \<^verbatim>\<open>-\<close>, the two argument vectors
  differ in the parameter token only, and \<open>J\<close> is read to its end: the allocator grants
  the buffer for it.
\<close>

theorem stdin_parameters_same_as_literal:
  assumes "call_arguments_new x argv1 = Inr a" and "parameters a = Some ''-''"
    and "call_arguments_new x argv2 = Inr (a\<lparr>parameters := Some J\<rparr>)"
    and "J \<noteq> ''-''" and "CHR 0x00 \<notin> set J" and "length J < 2 ^ 63"
    and "concat chunks = J" and "[] \<notin> set chunks"
    and "\<forall>n \<le> max 1024 (2 * length J). realloc x n"
  shows "call_run_parameters x (Some ''-'') (map Data chunks) s = call_run_parameters x (Some J) inp s
       \<and> call_run x argv1 (map Data chunks) events = call_run x argv2 inp events"
proof -
  have "delivered (map Data chunks) = J"
    using assms by (simp add: delivered_chunks)
  then have rd: "read_parameters (realloc x) (map Data chunks) = Some J"
    using assms read_parameters_delivered [of "map Data chunks" "realloc x"]
    by (simp add: c_string_terminated)
  have params: "call_run_parameters x (Some ''-'') (map Data chunks) t =
      call_run_parameters x (Some J) inp t" for t
    using rd assms(4) by (simp add: call_run_parameters_def)
  have runs: "call_run x argv1 (map Data chunks) events = call_run x argv2 inp events"
  proof (cases "uri a")
    case None
    then show ?thesis
      using assms(1-3) by (simp add: call_run_def Let_def)
  next
    case (Some u)
    then show ?thesis
      using assms(1-3) params
      by (cases "qualified_member u") (simp_all add: call_run_def Let_def split: sum.splits)
  qed
  show ?thesis
    using params runs by simp
qed

theorem stdin_parameters_same_as_literal_witness:
  "call_run stub [''call'', ''a.b'', ''-''] (map Data [''{'', ''}'']) [Reply None ''{1}'' 0] =
   call_run stub [''call'', ''a.b'', ''{}''] [] [Reply None ''{1}'' 0]
   \<and> call_run stub [''call'', ''a.b'', ''{}''] [] [Reply None ''{1}'' 0] =
     (Return 0,
      \<lparr>error = 0, closed = True,
       trace = [Connect \<lparr>qualified_member = Some ''a.b''\<rparr>, Call ''a.b'' (Some ''{}'') 0,
                Stdout ''{1}\<newline>'']\<rparr>)"
proof -
  have h: "call_arguments_new stub [''call'', ''a.b'', ''-''] =
      Inr \<lparr>help = False, flags = 0, uri = Some \<lparr>qualified_member = Some ''a.b''\<rparr>,
           parameters = Some ''-''\<rparr>"
    "parameters \<lparr>help = False, flags = 0, uri = Some \<lparr>qualified_member = Some ''a.b''\<rparr>,
           parameters = Some ''-''\<rparr> = Some ''-''"
    "call_arguments_new stub [''call'', ''a.b'', ''{}''] =
      Inr (\<lparr>help = False, flags = 0, uri = Some \<lparr>qualified_member = Some ''a.b''\<rparr>,
           parameters = Some ''-''\<rparr>\<lparr>parameters := Some ''{}''\<rparr>)"
    "''{}'' \<noteq> ''-''" "CHR 0x00 \<notin> set ''{}''" "length ''{}'' < 2 ^ 63"
    "concat [''{'', ''}''] = ''{}''" "[] \<notin> set [''{'', ''}'']"
    "\<forall>n \<le> max 1024 (2 * length ''{}''). realloc stub n"
    by (simp_all add: call_arguments_new_def stub_defs)
  show ?thesis
    using stdin_parameters_same_as_literal [OF h, of _ "[]" "[Reply None ''{1}'' 0]"]
    by (simp add: call_defs stub_defs run_defs)
qed

section \<open>Argument errors\<close>

text \<open>
  Options that are all \<^verbatim>\<open>-m\<close> take the loop of \<^verbatim>\<open>call_arguments_new\<close> to its end
  and change the flags only. A run that ends on an argument error or on a target without
  a method has made no connection and no call.
\<close>

lemma options_only_more:
  "set codes \<subseteq> {opt_m} \<Longrightarrow>
   \<exists>fl. call_arguments_options x codes a = Inr (False, a\<lparr>flags := fl\<rparr>)"
proof (induction codes arbitrary: a)
  case Nil
  have "a = a\<lparr>flags := flags a\<rparr>" by simp
  then show ?case by (metis call_arguments_options.simps(1))
next
  case (Cons c cs)
  then have c: "c = opt_m" and cs: "set cs \<subseteq> {opt_m}" by auto
  obtain fl where "call_arguments_options x cs (a\<lparr>flags := flags a OR VARLINK_CALL_MORE x\<rparr>) =
      Inr (False, a\<lparr>flags := flags a OR VARLINK_CALL_MORE x\<rparr>\<lparr>flags := fl\<rparr>)"
    using Cons.IH [OF cs] by blast
  then show ?case
    using c by (auto simp: opt_m_def opt_h_def)
qed

lemma argument_error_no_network:
  "call_arguments_new x argv = Inl r \<Longrightarrow> no_network (trace (snd (call_run x argv inp events)))"
  by (simp add: call_run_def no_network_def emit_def Let_def)

lemma target_error_no_network:
  "call_arguments_new x argv = Inr a \<Longrightarrow> uri a = Some u \<Longrightarrow> qualified_member u = None \<Longrightarrow>
   no_network (trace (snd (call_run x argv inp events)))"
  by (simp add: call_run_def no_network_def emit_def usage_def Let_def)

text \<open>
  Claim C6, as amended. For every argument vector whose options are all \<^verbatim>\<open>-m\<close> or
  \<^verbatim>\<open>--more\<close> (no \<^verbatim>\<open>-h\<close>, no unknown option) and that has no target token (\<open>optind\<close>
  has reached \<^verbatim>\<open>argc\<close>), the run returns \<^verbatim>\<open>-CLI_ERROR_MISSING_ARGUMENT\<close> and its
  whole trace is the line on standard error: the connect operation is not invoked. More
  generally, when \<^verbatim>\<open>call_arguments_new\<close> fails, or the target has no method, the trace
  of the run holds no connect and no call.
\<close>

theorem missing_target_before_connect:
  "(getopt_long x argv '':hm'' options = (codes, optind, argv') \<and> set codes \<subseteq> {opt_m}
      \<and> length argv' \<le> optind \<longrightarrow>
    call_run x argv inp events =
      (Return (- CLI_ERROR x CLI_ERROR_MISSING_ARGUMENT),
       \<lparr>error = 0, closed = False,
        trace = [Stderr ''Missing argument, INTERFACE.METHOD [ARGUMENTS] expected\<newline>'']\<rparr>))
   \<and> (call_arguments_new x argv = Inl r \<longrightarrow>
        no_network (trace (snd (call_run x argv inp events))))
   \<and> (call_arguments_new x argv = Inr a \<and> uri a = Some u \<and> qualified_member u = None \<longrightarrow>
        no_network (trace (snd (call_run x argv inp events))))"
proof (intro conjI impI)
  assume h: "getopt_long x argv '':hm'' options = (codes, optind, argv') \<and> set codes \<subseteq> {opt_m}
      \<and> length argv' \<le> optind"
  then obtain fl where "call_arguments_options x codes
      \<lparr>help = False, flags = 0, uri = None, parameters = None\<rparr> =
      Inr (False, \<lparr>help = False, flags = 0, uri = None, parameters = None\<rparr>\<lparr>flags := fl\<rparr>)"
    using options_only_more by blast
  then have "call_arguments_new x argv = Inl (- CLI_ERROR x CLI_ERROR_MISSING_ARGUMENT)"
    using h by (simp add: call_arguments_new_def)
  then show "call_run x argv inp events =
      (Return (- CLI_ERROR x CLI_ERROR_MISSING_ARGUMENT),
       \<lparr>error = 0, closed = False,
        trace = [Stderr ''Missing argument, INTERFACE.METHOD [ARGUMENTS] expected\<newline>'']\<rparr>)"
    by (simp add: call_run_def emit_def Let_def)
next
  assume "call_arguments_new x argv = Inl r"
  then show "no_network (trace (snd (call_run x argv inp events)))"
    by (rule argument_error_no_network)
next
  assume "call_arguments_new x argv = Inr a \<and> uri a = Some u \<and> qualified_member u = None"
  then show "no_network (trace (snd (call_run x argv inp events)))"
    using target_error_no_network by blast
qed

theorem missing_target_before_connect_witness:
  "call_run stub [''call'', ''-m''] [] [Reply None ''{1}'' 0] =
     (Return (- 3),
      \<lparr>error = 0, closed = False,
       trace = [Stderr ''Missing argument, INTERFACE.METHOD [ARGUMENTS] expected\<newline>'']\<rparr>)
   \<and> call_arguments_new stub [''call'', ''--no-such-option'', ''a.b''] = Inl (- 4)
   \<and> no_network (trace (snd (call_run stub [''call'', ''--no-such-option'', ''a.b''] []
        [Reply None ''{1}'' 0])))
   \<and> call_arguments_new stub [''call'', ''interface''] =
        Inr \<lparr>help = False, flags = 0, uri = Some \<lparr>qualified_member = None\<rparr>, parameters = None\<rparr>
   \<and> no_network (trace (snd (call_run stub [''call'', ''interface''] [] [Reply None ''{1}'' 0])))"
proof -
  have h1: "getopt_long stub [''call'', ''-m''] '':hm'' options = ([opt_m], 2, [''call'', ''-m''])
      \<and> set [opt_m] \<subseteq> {opt_m} \<and> length [''call'', ''-m''] \<le> 2"
    by (simp add: stub_defs)
  have h2: "call_arguments_new stub [''call'', ''--no-such-option'', ''a.b''] = Inl (- 4)"
    by (simp add: call_arguments_new_def stub_defs)
  have h3: "call_arguments_new stub [''call'', ''interface''] =
        Inr \<lparr>help = False, flags = 0, uri = Some \<lparr>qualified_member = None\<rparr>, parameters = None\<rparr>
      \<and> uri \<lparr>help = False, flags = 0, uri = Some \<lparr>qualified_member = None\<rparr>, parameters = None\<rparr>
          = Some \<lparr>qualified_member = None\<rparr>
      \<and> qualified_member \<lparr>qualified_member = None\<rparr> = None"
    by (simp add: call_arguments_new_def stub_defs)
  show ?thesis
    using h1 h2 h3
      missing_target_before_connect [of stub "[''call'', ''-m'']" "[opt_m]" 2 "[''call'', ''-m'']" "[]" "[Reply None ''{1}'' 0]"]
      missing_target_before_connect [of stub "[''call'', ''--no-such-option'', ''a.b'']" _ _ _ "[]" "[Reply None ''{1}'' 0]" "- 4"]
      missing_target_before_connect [of stub "[''call'', ''interface'']" _ _ _ "[]" "[Reply None ''{1}'' 0]" _
             "\<lparr>help = False, flags = 0, uri = Some \<lparr>qualified_member = None\<rparr>, parameters = None\<rparr>"
             "\<lparr>qualified_member = None\<rparr>"]
    by (simp add: stub_def)
qed

text \<open>
  The sentence as the spec has it, for every argument vector without a target token,
  fails where an option ends the parsing first: \<^verbatim>\<open>varlink call -h\<close> has no target token,
  prints the usage and returns 0, not \<^verbatim>\<open>-CLI_ERROR_MISSING_ARGUMENT\<close>.
\<close>

theorem help_option_without_target_counterexample:
  "gnu_getopt_long [''call'', ''-h''] '':hm'' options = ([opt_h], 2, [''call'', ''-h''])
   \<and> call_run stub [''call'', ''-h''] [] [] =
       (Return 0, \<lparr>error = 0, closed = False, trace = usage stub\<rparr>)
   \<and> CLI_ERROR stub CLI_ERROR_MISSING_ARGUMENT = 3"
  by (simp add: call_defs stub_defs)

section \<open>The help command: remote error and description that does not parse\<close>

text \<open>
  Claim C7. When the help command has its target, the connection and the call succeed,
  and the reply carries a remote error name, \<^verbatim>\<open>help_interface\<close> prints the error and
  returns 0, and \<^verbatim>\<open>help_run\<close> returns \<^verbatim>\<open>EXIT_SUCCESS\<close>, which is 0.
\<close>

theorem help_remote_error_is_success:
  assumes "help_run_target x argv = Inr (address, name)"
    and "0 \<le> cli_connect_address x address"
    and "0 \<le> cli_call x ''org.varlink.service.GetInterfaceDescription''
                 (varlink_object_set_string x (varlink_object_new x) ''interface'' name) 0"
    and "cli_wait_reply x = (r, reply, Some e)" and "0 \<le> r"
  shows "help_interface x name = (0, [Stdout (''Error: '' @ e @ ''\<newline>'')])
       \<and> help_run x argv = (EXIT_SUCCESS, [Stdout (''Error: '' @ e @ ''\<newline>'')])
       \<and> EXIT_SUCCESS = 0"
proof -
  have hi: "help_interface x name = (0, [Stdout (''Error: '' @ e @ ''\<newline>'')])"
    using assms(3-5) by (simp add: help_interface_def Let_def)
  then have "help_connect x address name = (EXIT_SUCCESS, [Stdout (''Error: '' @ e @ ''\<newline>'')])"
    using assms(2) by (simp add: help_connect_def)
  then show ?thesis
    using hi assms(1) by (simp add: help_run_def EXIT_SUCCESS_def)
qed

theorem help_remote_error_is_success_witness:
  "help_run (help_stub (0, ''{}'', Some ''org.varlink.service.InterfaceNotFound''))
     [''help'', ''org.example.none''] =
   (0, [Stdout ''Error: org.varlink.service.InterfaceNotFound\<newline>''])"
proof -
  let ?x = "help_stub (0, ''{}'', Some ''org.varlink.service.InterfaceNotFound'')"
  have h: "help_run_target ?x [''help'', ''org.example.none''] =
      Inr (''unix:/run/org.varlink.resolver'', ''org.example.none'')"
    "0 \<le> cli_connect_address ?x ''unix:/run/org.varlink.resolver''"
    "0 \<le> cli_call ?x ''org.varlink.service.GetInterfaceDescription''
           (varlink_object_set_string ?x (varlink_object_new ?x) ''interface'' ''org.example.none'') 0"
    "cli_wait_reply ?x = (0, ''{}'', Some ''org.varlink.service.InterfaceNotFound'')"
    "(0::int) \<le> 0"
    by (simp_all add: help_run_target_def help_stub_def stub_defs)
  show ?thesis
    using help_remote_error_is_success [OF h] by (simp add: EXIT_SUCCESS_def)
qed

text \<open>
  Claim C8. When the reply has no error name and its description does not parse into an
  interface, \<^verbatim>\<open>help_interface\<close> returns \<^verbatim>\<open>-CLI_ERROR_PANIC\<close> and prints nothing, and
  \<^verbatim>\<open>help_run\<close> returns \<^verbatim>\<open>EXIT_FAILURE\<close>, which is not 0. The code of
  \<^verbatim>\<open>CLI_ERROR_PANIC\<close> is positive, as an error code of the missing header is.
\<close>

theorem help_unparsable_description_is_panic:
  assumes "help_run_target x argv = Inr (address, name)"
    and "0 \<le> cli_connect_address x address"
    and "0 \<le> cli_call x ''org.varlink.service.GetInterfaceDescription''
                 (varlink_object_set_string x (varlink_object_new x) ''interface'' name) 0"
    and "cli_wait_reply x = (r, reply, None)" and "0 \<le> r"
    and "varlink_object_get_string x reply ''description'' = (rg, interfacestring)" and "0 \<le> rg"
    and "varlink_interface_new x interfacestring = (ri, interface)" and "ri < 0"
    and "0 < CLI_ERROR x CLI_ERROR_PANIC"
  shows "help_interface x name = (- CLI_ERROR x CLI_ERROR_PANIC, [])
       \<and> help_run x argv = (EXIT_FAILURE, [])
       \<and> EXIT_FAILURE \<noteq> 0"
proof -
  have hi: "help_interface x name = (- CLI_ERROR x CLI_ERROR_PANIC, [])"
    using assms(3-9) by (simp add: help_interface_def Let_def)
  then have "help_connect x address name = (EXIT_FAILURE, [])"
    using assms(2,10) by (simp add: help_connect_def)
  then show ?thesis
    using hi assms(1) by (simp add: help_run_def EXIT_FAILURE_def)
qed

theorem help_unparsable_description_is_panic_witness:
  "help_interface (help_stub (0, ''not a description'', None)) ''org.example.broken'' = (- 1, [])
   \<and> help_run (help_stub (0, ''not a description'', None)) [''help'', ''org.example.broken''] =
       (1, [])"
proof -
  let ?x = "help_stub (0, ''not a description'', None)"
  have h: "help_run_target ?x [''help'', ''org.example.broken''] =
      Inr (''unix:/run/org.varlink.resolver'', ''org.example.broken'')"
    "0 \<le> cli_connect_address ?x ''unix:/run/org.varlink.resolver''"
    "0 \<le> cli_call ?x ''org.varlink.service.GetInterfaceDescription''
           (varlink_object_set_string ?x (varlink_object_new ?x) ''interface'' ''org.example.broken'') 0"
    "cli_wait_reply ?x = (0, ''not a description'', None)"
    "(0::int) \<le> 0"
    "varlink_object_get_string ?x ''not a description'' ''description'' = (0, ''not a description'')"
    "(0::int) \<le> 0"
    "varlink_interface_new ?x ''not a description'' = (- 1, ''not a description'')"
    "(- 1 :: int) < 0"
    "0 < CLI_ERROR ?x CLI_ERROR_PANIC"
    by (simp_all add: help_run_target_def help_stub_def stub_defs)
  show ?thesis
    using help_unparsable_description_is_panic [OF h] by (simp add: EXIT_FAILURE_def help_stub_def)
qed

end
